theory Spec2Isabelle
  imports Complex_Main
begin

section \<open>The lab mock service (src/mocks/lab\_mock.py)\<close>

text \<open>
  Python floats are modelled as reals, Python strings as \<open>string\<close>, a \<open>datetime\<close>
  as an integer count of microseconds. The module-level dictionary
  \<open>LAB_REFERENCE_RANGES\<close> keeps its insertion order, so it is an association list;
  membership and subscripting go through \<open>map_of\<close>.
\<close>

subsection \<open>Data model\<close>

type_synonym datetime = int

text \<open>The request body; \<open>test_types\<close> has a default value.\<close>

record LabRequest =
  req_patient_id :: string
  req_test_types :: "string list"

definition default_test_types :: "string list" where
  "default_test_types = [''hba1c'', ''cholesterol'', ''crp'']"

definition LabRequest_default :: "string \<Rightarrow> LabRequest" where
  "LabRequest_default pid = \<lparr>req_patient_id = pid, req_test_types = default_test_types\<rparr>"

record LabResult =
  test_type :: string
  value_f :: real
  unit_f :: string
  reference_min :: real
  reference_max :: real
  timestamp :: datetime

record LabResponse =
  patient_id :: string
  results :: "LabResult list"
  lab_id :: string
  processed_at :: datetime

text \<open>One inner dictionary of the reference table: seven fixed keys.\<close>

record config =
  cfg_unit :: string
  cfg_min :: real
  cfg_max :: real
  normal_mean :: real
  normal_std :: real
  abnormal_mean :: real
  abnormal_std :: real

definition LAB_REFERENCE_RANGES :: "(string \<times> config) list" where
  "LAB_REFERENCE_RANGES =
    [(''hba1c'',
        \<lparr>cfg_unit = ''%'', cfg_min = 4.0, cfg_max = 5.6,
         normal_mean = 5.2, normal_std = 0.3, abnormal_mean = 7.5, abnormal_std = 1.5\<rparr>),
     (''cholesterol_total'',
        \<lparr>cfg_unit = ''mg/dL'', cfg_min = 0, cfg_max = 200,
         normal_mean = 180, normal_std = 20, abnormal_mean = 260, abnormal_std = 40\<rparr>),
     (''cholesterol_ldl'',
        \<lparr>cfg_unit = ''mg/dL'', cfg_min = 0, cfg_max = 100,
         normal_mean = 90, normal_std = 15, abnormal_mean = 150, abnormal_std = 30\<rparr>),
     (''cholesterol_hdl'',
        \<lparr>cfg_unit = ''mg/dL'', cfg_min = 40, cfg_max = 60,
         normal_mean = 55, normal_std = 10, abnormal_mean = 35, abnormal_std = 8\<rparr>),
     (''crp'',
        \<lparr>cfg_unit = ''mg/L'', cfg_min = 0, cfg_max = 3.0,
         normal_mean = 1.0, normal_std = 0.5, abnormal_mean = 8.0, abnormal_std = 3.0\<rparr>),
     (''glucose_fasting'',
        \<lparr>cfg_unit = ''mg/dL'', cfg_min = 70, cfg_max = 100,
         normal_mean = 90, normal_std = 8, abnormal_mean = 140, abnormal_std = 30\<rparr>),
     (''triglycerides'',
        \<lparr>cfg_unit = ''mg/dL'', cfg_min = 0, cfg_max = 150,
         normal_mean = 100, normal_std = 25, abnormal_mean = 220, abnormal_std = 50\<rparr>)]"

text \<open>\<open>list(LAB_REFERENCE_RANGES.keys())\<close>\<close>

definition keys :: "string list" where
  "keys = map fst LAB_REFERENCE_RANGES"

text \<open>The only exception the module raises: \<open>HTTPException(status_code, detail)\<close>.\<close>

datatype error = HTTPException int string

subsection \<open>The standard library the module calls\<close>

text \<open>
  The module draws from Python's \<open>random\<close> and reads the clock with
  \<open>datetime.utcnow()\<close>. Neither belongs to the repository, so both are parameters:
  a record of state-passing primitives over a state \<open>'s\<close> that holds the random stream
  and the clock. Same record and same state means same random stream.
\<close>

record 's sys =
  random_random :: "'s \<Rightarrow> real \<times> 's"
  random_uniform :: "real \<Rightarrow> real \<Rightarrow> 's \<Rightarrow> real \<times> 's"
  random_gauss :: "real \<Rightarrow> real \<Rightarrow> 's \<Rightarrow> real \<times> 's"
  random_randint :: "int \<Rightarrow> int \<Rightarrow> 's \<Rightarrow> int \<times> 's"
  datetime_utcnow :: "'s \<Rightarrow> datetime \<times> 's"

text \<open>
  What the library documents about the ranges of its draws: \<open>random()\<close> lies in
  \<open>[0, 1)\<close>, \<open>uniform(a, b)\<close> in \<open>[a, b]\<close> and \<open>randint(a, b)\<close> in \<open>[a, b]\<close>
  for \<open>a \<le> b\<close>. Nothing is assumed about \<open>gauss\<close>.
\<close>

definition random_ok :: "'s sys \<Rightarrow> bool" where
  "random_ok R \<longleftrightarrow>
     (\<forall>s. 0 \<le> fst (random_random R s) \<and> fst (random_random R s) < 1) \<and>
     (\<forall>a b s. a \<le> b \<longrightarrow> a \<le> fst (random_uniform R a b s) \<and> fst (random_uniform R a b s) \<le> b) \<and>
     (\<forall>a b s. a \<le> b \<longrightarrow> a \<le> fst (random_randint R a b s) \<and> fst (random_randint R a b s) \<le> b)"

text \<open>
  \<open>round(x, 2)\<close>: the nearest multiple of one hundredth, a tie going to the even
  multiple.
\<close>

definition round_half_even :: "real \<Rightarrow> int" where
  "round_half_even y =
     (let f = \<lfloor>y\<rfloor>; d = y - of_int f
      in if d < 1/2 then f else if 1/2 < d then f + 1 else if even f then f else f + 1)"

definition round2 :: "real \<Rightarrow> real" where
  "round2 x = of_int (round_half_even (x * 100)) / 100"

text \<open>\<open>str(n)\<close> for an integer, as the f-string formats it.\<close>

definition digit_char :: "nat \<Rightarrow> char" where
  "digit_char d = ''0123456789'' ! d"

fun str_nat :: "nat \<Rightarrow> string" where
  "str_nat n = (if n < 10 then [digit_char n] else str_nat (n div 10) @ [digit_char (n mod 10)])"

definition str_int :: "int \<Rightarrow> string" where
  "str_int i = (if i < 0 then ''-'' @ str_nat (nat (- i)) else str_nat (nat i))"

text \<open>
  \<open>repr\<close> of a string free of quotes, backslashes and control characters (every key
  of the table is), and of a list of such strings.
\<close>

definition repr_str :: "string \<Rightarrow> string" where
  "repr_str k = [CHR 0x27] @ k @ [CHR 0x27]"

fun join_comma :: "string list \<Rightarrow> string" where
  "join_comma [] = []"
| "join_comma [x] = x"
| "join_comma (x # y # ys) = x @ '', '' @ join_comma (y # ys)"

definition repr_list :: "string list \<Rightarrow> string" where
  "repr_list ks = ''['' @ join_comma (map repr_str ks) @ '']''"

subsection \<open>generate\_lab\_value\<close>

definition default_abnormal_probability :: real where
  "default_abnormal_probability = 0.3"

definition generate_lab_value :: "'s sys \<Rightarrow> string \<Rightarrow> real \<Rightarrow> 's \<Rightarrow> real \<times> 's" where
  "generate_lab_value R ttype abnormal_probability s =
     (case map_of LAB_REFERENCE_RANGES ttype of
        None \<Rightarrow>
          (let (u, s1) = random_uniform R 0 100 s in (round2 u, s1))
      | Some cfg \<Rightarrow>
          (let (r, s1) = random_random R s;
               is_abnormal = r < abnormal_probability;
               (v, s2) = (if is_abnormal
                          then random_gauss R (abnormal_mean cfg) (abnormal_std cfg) s1
                          else random_gauss R (normal_mean cfg) (normal_std cfg) s1)
           in (round2 (max 0 v), s2)))"

subsection \<open>The handlers\<close>

text \<open>
  The body of the \<open>for\<close> loop of \<open>request_lab_results\<close>: \<open>results\<close> is the list
  built so far, each kept test type appends one result. Keyword arguments are evaluated
  left to right: the value is drawn before the clock is read.
\<close>

fun request_loop :: "'s sys \<Rightarrow> string list \<Rightarrow> LabResult list \<Rightarrow> 's \<Rightarrow> LabResult list \<times> 's" where
  "request_loop R [] rs s = (rs, s)"
| "request_loop R (t # ts) rs s =
     (case map_of LAB_REFERENCE_RANGES t of
        None \<Rightarrow> request_loop R ts rs s
      | Some cfg \<Rightarrow>
          (let (v, s1) = generate_lab_value R t default_abnormal_probability s;
               (now, s2) = datetime_utcnow R s1
           in request_loop R ts
                (rs @ [\<lparr>test_type = t, value_f = v, unit_f = cfg_unit cfg,
                        reference_min = cfg_min cfg, reference_max = cfg_max cfg,
                        timestamp = now\<rparr>]) s2))"

definition no_valid_detail :: string where
  "no_valid_detail = ''No valid test types provided. Available: '' @ repr_list keys"

definition request_lab_results :: "'s sys \<Rightarrow> LabRequest \<Rightarrow> 's \<Rightarrow> (error + LabResponse) \<times> 's" where
  "request_lab_results R request s =
     (let (rs, s1) = request_loop R (req_test_types request) [] s
      in if rs = [] then (Inl (HTTPException 400 no_valid_detail), s1)
         else
           (let (n, s2) = random_randint R 100000 999999 s1;
                (now, s3) = datetime_utcnow R s2
            in (Inr \<lparr>patient_id = req_patient_id request, results = rs,
                     lab_id = ''LAB-'' @ str_int n, processed_at = now\<rparr>, s3)))"

text \<open>The loop of \<open>get_lab_results\<close> runs over the items of the table.\<close>

fun panel_loop :: "'s sys \<Rightarrow> (string \<times> config) list \<Rightarrow> LabResult list \<Rightarrow> 's \<Rightarrow> LabResult list \<times> 's" where
  "panel_loop R [] rs s = (rs, s)"
| "panel_loop R ((t, cfg) # items) rs s =
     (let (v, s1) = generate_lab_value R t default_abnormal_probability s;
          (now, s2) = datetime_utcnow R s1
      in panel_loop R items
           (rs @ [\<lparr>test_type = t, value_f = v, unit_f = cfg_unit cfg,
                   reference_min = cfg_min cfg, reference_max = cfg_max cfg,
                   timestamp = now\<rparr>]) s2)"

definition get_lab_results :: "'s sys \<Rightarrow> string \<Rightarrow> 's \<Rightarrow> LabResponse \<times> 's" where
  "get_lab_results R pid s =
     (let (rs, s1) = panel_loop R LAB_REFERENCE_RANGES [] s;
          (n, s2) = random_randint R 100000 999999 s1;
          (now, s3) = datetime_utcnow R s2
      in (\<lparr>patient_id = pid, results = rs,
           lab_id = ''LAB-'' @ str_int n, processed_at = now\<rparr>, s3))"

text \<open>
  \<open>list_available_tests\<close> returns a dictionary with the single key \<open>tests\<close>, whose
  value maps each test type to its unit and reference range.
\<close>

record reference_range =
  range_min :: real
  range_max :: real

record test_info =
  info_unit :: string
  info_reference_range :: reference_range

record tests_response =
  tests :: "(string \<times> test_info) list"

definition list_available_tests :: tests_response where
  "list_available_tests =
     \<lparr>tests = map (\<lambda>(t, cfg). (t, \<lparr>info_unit = cfg_unit cfg,
                    info_reference_range = \<lparr>range_min = cfg_min cfg, range_max = cfg_max cfg\<rparr>\<rparr>))
                  LAB_REFERENCE_RANGES\<rparr>"

subsection \<open>A deterministic instance of the library\<close>

text \<open>
  The state is a counter that every call advances; each draw returns a fixed point of
  its range and the clock returns the counter.
\<close>

definition fixed_sys :: "nat sys" where
  "fixed_sys =
     \<lparr>random_random = (\<lambda>s. (1/2, Suc s)),
      random_uniform = (\<lambda>a b s. (b, Suc s)),
      random_gauss = (\<lambda>mu sigma s. (mu - 3 * sigma, Suc s)),
      random_randint = (\<lambda>a b s. (a, Suc s)),
      datetime_utcnow = (\<lambda>s. (int s, Suc s))\<rparr>"

subsection \<open>The generator as the specification words it\<close>

text \<open>
  The reference definition of the generator for a test type of the table, written from
  the specification: draw a uniform number; if it is less than the abnormal probability,
  sample from Normal(abnormal mean, abnormal std), otherwise from Normal(normal mean,
  normal std); then clamp to at least zero and round to two decimal places.
\<close>

definition spec_sample :: "'s sys \<Rightarrow> config \<Rightarrow> real \<Rightarrow> 's \<Rightarrow> real \<times> 's" where
  "spec_sample R profile p s =
     (let (u, s1) = random_random R s;
          (mean, std) = (if u < p then (abnormal_mean profile, abnormal_std profile)
                         else (normal_mean profile, normal_std profile))
      in random_gauss R mean std s1)"

definition spec_post_process :: "real \<Rightarrow> real" where
  "spec_post_process x = round2 (if x < 0 then 0 else x)"

definition spec_generate :: "'s sys \<Rightarrow> config \<Rightarrow> real \<Rightarrow> 's \<Rightarrow> real \<times> 's" where
  "spec_generate R profile p s =
     (let (x, s') = spec_sample R profile p s in (spec_post_process x, s'))"

section \<open>Lemmas about the model\<close>

declare str_nat.simps [simp del]

lemma keys_eq: "keys = [''hba1c'', ''cholesterol_total'', ''cholesterol_ldl'', ''cholesterol_hdl'', ''crp'', ''glucose_fasting'', ''triglycerides'']"
  by (simp add: keys_def LAB_REFERENCE_RANGES_def)

lemma in_keys_iff: "t \<in> set keys \<longleftrightarrow> map_of LAB_REFERENCE_RANGES t \<noteq> None"
  by (simp add: keys_def map_of_eq_None_iff)

lemma round_half_even_nonneg: "0 \<le> y \<Longrightarrow> 0 \<le> round_half_even y"
  by (auto simp: round_half_even_def Let_def)

lemma round_half_even_le: "y \<le> of_int n \<Longrightarrow> round_half_even y \<le> n"
  unfolding round_half_even_def Let_def
  by (auto simp: floor_le_iff)

lemma round2_nonneg: "0 \<le> x \<Longrightarrow> 0 \<le> round2 x"
  by (simp add: round2_def round_half_even_nonneg)

lemma round2_le_100: "x \<le> 100 \<Longrightarrow> round2 x \<le> 100"
  using round_half_even_le[of "x * 100" 10000] by (simp add: round2_def)

lemma round2_hundredths: "\<exists>k::int. round2 x = of_int k / 100"
  by (auto simp: round2_def)

lemma no_valid_detail_eq: "no_valid_detail = ''No valid test types provided. Available: ['hba1c', 'cholesterol_total', 'cholesterol_ldl', 'cholesterol_hdl', 'crp', 'glucose_fasting', 'triglycerides']''"
  by (simp add: no_valid_detail_def keys_eq repr_list_def repr_str_def)

lemma request_loop_types:
  "map test_type (fst (request_loop R ts rs s)) = map test_type rs @ filter (\<lambda>t. t \<in> set keys) ts"
proof (induction ts arbitrary: rs s)
  case Nil
  show ?case by simp
next
  case (Cons t ts)
  show ?case
  proof (cases "map_of LAB_REFERENCE_RANGES t")
    case None
    then show ?thesis using Cons.IH by (simp add: in_keys_iff)
  next
    case (Some cfg)
    then show ?thesis using Cons.IH by (simp add: in_keys_iff split_def Let_def)
  qed
qed

lemma panel_loop_types:
  "map test_type (fst (panel_loop R items rs s)) = map test_type rs @ map fst items"
  by (induction items arbitrary: rs s) (auto simp: split_def Let_def)

lemma digit_char_digit: "d < 10 \<Longrightarrow> digit_char d \<in> set ''0123456789''"
  unfolding digit_char_def by (rule nth_mem) simp

lemma str_nat_digits: "set (str_nat n) \<subseteq> set ''0123456789''"
proof (induction n rule: str_nat.induct)
  case (1 n)
  show ?case
  proof (cases "n < 10")
    case True
    then show ?thesis using digit_char_digit[of n] by (subst str_nat.simps) simp
  next
    case False
    then show ?thesis using 1 digit_char_digit[of "n mod 10"]
      by (subst str_nat.simps) simp
  qed
qed

lemma str_nat_length: "10 ^ k \<le> n \<Longrightarrow> n < 10 ^ Suc k \<Longrightarrow> length (str_nat n) = Suc k"
proof (induction k arbitrary: n)
  case 0
  then show ?case by (subst str_nat.simps) simp
next
  case (Suc k)
  have "(1::nat) \<le> 10 ^ k" by simp
  then have "(10::nat) \<le> 10 ^ Suc k" by simp
  from le_trans[OF this Suc.prems(1)] have ge: "\<not> n < 10" by (simp add: not_less)
  have "10 ^ k \<le> n div 10" using Suc.prems by simp
  moreover have "n div 10 < 10 ^ Suc k" using Suc.prems by (simp add: less_mult_imp_div_less)
  ultimately have "length (str_nat (n div 10)) = Suc k" by (rule Suc.IH)
  then show ?case using ge by (subst str_nat.simps) simp
qed

lemma str_int_six:
  assumes "100000 \<le> n" "n \<le> 999999"
  shows "length (str_int n) = 6 \<and> set (str_int n) \<subseteq> set ''0123456789''"
proof -
  have "10 ^ 5 \<le> nat n" "nat n < 10 ^ Suc 5" using assms by simp_all
  then have "length (str_nat (nat n)) = Suc 5" by (rule str_nat_length)
  then show ?thesis using assms str_nat_digits[of "nat n"] by (simp add: str_int_def)
qed

lemma request_loop_nonempty:
  "fst (request_loop R ts [] s) = [] \<longleftrightarrow> (\<forall>t\<in>set ts. t \<notin> set keys)"
proof -
  have "fst (request_loop R ts [] s) = [] \<longleftrightarrow> map test_type (fst (request_loop R ts [] s)) = []"
    by simp
  also have "\<dots> \<longleftrightarrow> filter (\<lambda>t. t \<in> set keys) ts = []"
    by (simp only: request_loop_types) simp
  also have "\<dots> \<longleftrightarrow> (\<forall>t\<in>set ts. t \<notin> set keys)"
    by (simp add: filter_empty_conv)
  finally show ?thesis .
qed

lemma request_cases:
  "fst (request_lab_results R req s) =
     (if fst (request_loop R (req_test_types req) [] s) = []
      then Inl (HTTPException 400 no_valid_detail)
      else Inr \<lparr>patient_id = req_patient_id req,
             results = fst (request_loop R (req_test_types req) [] s),
             lab_id = ''LAB-'' @ str_int (fst (random_randint R 100000 999999
                        (snd (request_loop R (req_test_types req) [] s)))),
             processed_at = fst (datetime_utcnow R (snd (random_randint R 100000 999999
                        (snd (request_loop R (req_test_types req) [] s)))))\<rparr>)"
  by (simp add: request_lab_results_def split_def Let_def)

lemma panel_loop_fields:
  "map (\<lambda>r. (test_type r, unit_f r, reference_min r, reference_max r)) (fst (panel_loop R items rs s)) =
     map (\<lambda>r. (test_type r, unit_f r, reference_min r, reference_max r)) rs @
     map (\<lambda>(t, cfg). (t, cfg_unit cfg, cfg_min cfg, cfg_max cfg)) items"
  by (induction items arbitrary: rs s) (auto simp: split_def Let_def)

lemma get_results:
  "results (fst (get_lab_results R pid s)) = fst (panel_loop R LAB_REFERENCE_RANGES [] s)"
  by (simp add: get_lab_results_def split_def Let_def)

lemma get_results_types: "map test_type (results (fst (get_lab_results R pid s))) = keys"
  by (simp add: get_results panel_loop_types keys_def)

lemma fixed_sys_ok: "random_ok fixed_sys"
  by (simp add: random_ok_def fixed_sys_def)

lemma hba1c_cfg:
  "map_of LAB_REFERENCE_RANGES ''hba1c'' =
     Some \<lparr>cfg_unit = ''%'', cfg_min = 4.0, cfg_max = 5.6,
           normal_mean = 5.2, normal_std = 0.3, abnormal_mean = 7.5, abnormal_std = 1.5\<rparr>"
  by (simp add: LAB_REFERENCE_RANGES_def)

section \<open>The claims\<close>

text \<open>
  Claim C1. The request handler fails with \<open>HTTPException(400, detail)\<close>, whose detail
  lists every key of the reference table, exactly when none of the requested test types
  is a key of the table; when at least one is a key it returns a \<open>LabResponse\<close>.
\<close>

theorem request_fails_iff_no_valid_type:
  "((\<exists>e. fst (request_lab_results R req s) = Inl e) \<longleftrightarrow>
      (\<forall>t\<in>set (req_test_types req). t \<notin> set keys)) \<and>
   (\<forall>e. fst (request_lab_results R req s) = Inl e \<longrightarrow> e = HTTPException 400 no_valid_detail) \<and>
   ((\<exists>resp. fst (request_lab_results R req s) = Inr resp) \<longleftrightarrow>
      (\<exists>t\<in>set (req_test_types req). t \<in> set keys)) \<and>
   no_valid_detail = ''No valid test types provided. Available: ['hba1c', 'cholesterol_total', 'cholesterol_ldl', 'cholesterol_hdl', 'crp', 'glucose_fasting', 'triglycerides']''"
proof -
  let ?ts = "req_test_types req"
  show ?thesis
  proof (cases "fst (request_loop R ?ts [] s) = []")
    case True
    then have none: "\<forall>t\<in>set ?ts. t \<notin> set keys"
      using request_loop_nonempty[of R ?ts s] by blast
    have "fst (request_lab_results R req s) = Inl (HTTPException 400 no_valid_detail)"
      using True by (simp add: request_cases)
    then show ?thesis using none by (simp add: no_valid_detail_eq)
  next
    case False
    then have some: "\<not> (\<forall>t\<in>set ?ts. t \<notin> set keys)"
      using request_loop_nonempty[of R ?ts s] by blast
    have "\<exists>resp. fst (request_lab_results R req s) = Inr resp"
      using False by (simp add: request_cases)
    then show ?thesis using some by (auto simp: no_valid_detail_eq)
  qed
qed

theorem request_fails_iff_no_valid_type_witness:
  "fst (request_lab_results fixed_sys \<lparr>req_patient_id = ''p1'', req_test_types = [''not_a_real_test'']\<rparr> 0)
     = Inl (HTTPException 400 no_valid_detail) \<and>
   (\<exists>resp. fst (request_lab_results fixed_sys
       \<lparr>req_patient_id = ''p1'', req_test_types = [''not_a_real_test'', ''crp'']\<rparr> 0) = Inr resp)"
proof -
  let ?bad = "\<lparr>req_patient_id = ''p1'', req_test_types = [''not_a_real_test'']\<rparr>"
  let ?ok = "\<lparr>req_patient_id = ''p1'', req_test_types = [''not_a_real_test'', ''crp'']\<rparr>"
  note bad = request_fails_iff_no_valid_type[of fixed_sys ?bad 0]
  note ok = request_fails_iff_no_valid_type[of fixed_sys ?ok 0]
  have "\<exists>e. fst (request_lab_results fixed_sys ?bad 0) = Inl e"
    using bad[THEN conjunct1] by (simp add: keys_eq)
  then have "fst (request_lab_results fixed_sys ?bad 0) = Inl (HTTPException 400 no_valid_detail)"
    using bad[THEN conjunct2, THEN conjunct1] by blast
  moreover have "\<exists>resp. fst (request_lab_results fixed_sys ?ok 0) = Inr resp"
    using ok[THEN conjunct2, THEN conjunct2, THEN conjunct1] by (simp add: keys_eq)
  ultimately show ?thesis by simp
qed

text \<open>
  Claim C2. In every response of the request handler and of the full-panel handler, the
  test type of each result is a key of the reference table. The request handler keeps
  exactly the requested types that are keys, in request order: a requested type that is
  not a key raises nothing and has no result.
\<close>

theorem result_types_in_table:
  "(\<forall>resp. fst (request_lab_results R req s) = Inr resp \<longrightarrow>
      (\<forall>r\<in>set (results resp). test_type r \<in> set keys) \<and>
      map test_type (results resp) = filter (\<lambda>t. t \<in> set keys) (req_test_types req) \<and>
      (\<forall>t\<in>set (req_test_types req). t \<notin> set keys \<longrightarrow> t \<notin> test_type ` set (results resp))) \<and>
   (\<forall>r\<in>set (results (fst (get_lab_results R pid s))). test_type r \<in> set keys)"
proof -
  have req: "map test_type (results resp) = filter (\<lambda>t. t \<in> set keys) (req_test_types req)"
    if "fst (request_lab_results R req s) = Inr resp" for resp
    using that request_loop_types[of R "req_test_types req" "[]" s]
    by (auto simp: request_cases split: if_splits)
  have sub: "test_type ` set (results resp) \<subseteq> set keys"
    if "fst (request_lab_results R req s) = Inr resp" for resp
  proof -
    have "test_type ` set (results resp) = set (map test_type (results resp))" by simp
    also have "\<dots> \<subseteq> set keys" by (simp only: req[OF that]) auto
    finally show ?thesis .
  qed
  have "set (map test_type (results (fst (get_lab_results R pid s)))) = set keys"
    by (simp only: get_results_types)
  then have panel: "test_type ` set (results (fst (get_lab_results R pid s))) = set keys"
    by (simp only: set_map)
  show ?thesis using req sub panel by blast
qed

theorem result_types_in_table_witness:
  "(\<exists>resp. fst (request_lab_results fixed_sys (LabRequest_default ''p1'') 0) = Inr resp \<and>
      map test_type (results resp) = [''hba1c'', ''crp'']) \<and>
   test_type (hd (results (fst (get_lab_results fixed_sys ''p1'' 0)))) \<in> set keys"
proof -
  note inst = result_types_in_table[of fixed_sys "LabRequest_default ''p1''" 0 "''p1''"]
  obtain resp where resp: "fst (request_lab_results fixed_sys (LabRequest_default ''p1'') 0) = Inr resp"
    by (simp add: request_lab_results_def LabRequest_default_def default_test_types_def
          LAB_REFERENCE_RANGES_def split_def Let_def)
  with inst have "map test_type (results resp) =
      filter (\<lambda>t. t \<in> set keys) (req_test_types (LabRequest_default ''p1''))"
    by blast
  then have a: "map test_type (results resp) = [''hba1c'', ''crp'']"
    by (simp add: LabRequest_default_def default_test_types_def keys_eq)
  have "map test_type (results (fst (get_lab_results fixed_sys ''p1'' 0))) \<noteq> []"
    by (simp only: get_results_types) (simp add: keys_eq)
  then have "results (fst (get_lab_results fixed_sys ''p1'' 0)) \<noteq> []" by auto
  then have "hd (results (fst (get_lab_results fixed_sys ''p1'' 0)))
      \<in> set (results (fst (get_lab_results fixed_sys ''p1'' 0)))" by simp
  with inst have b: "test_type (hd (results (fst (get_lab_results fixed_sys ''p1'' 0)))) \<in> set keys"
    by blast
  from resp a have "\<exists>resp. fst (request_lab_results fixed_sys (LabRequest_default ''p1'') 0) = Inr resp \<and>
      map test_type (results resp) = [''hba1c'', ''crp'']"
    by (intro exI[of _ resp]) simp
  then show ?thesis using b by simp
qed

text \<open>
  Claim C3. For every patient id the full-panel handler returns a response (it has no
  raising path) with exactly seven results, one per entry of the reference table and in
  table order, each carrying the unit and range of its entry.
\<close>

theorem get_lab_results_full_panel:
  "map test_type (results (fst (get_lab_results R pid s))) = keys \<and>
   length (results (fst (get_lab_results R pid s))) = 7 \<and>
   distinct keys \<and>
   map (\<lambda>r. (test_type r, unit_f r, reference_min r, reference_max r))
       (results (fst (get_lab_results R pid s))) =
     map (\<lambda>(t, cfg). (t, cfg_unit cfg, cfg_min cfg, cfg_max cfg)) LAB_REFERENCE_RANGES"
proof -
  have types: "map test_type (results (fst (get_lab_results R pid s))) = keys"
    by (rule get_results_types)
  have "length (map test_type (results (fst (get_lab_results R pid s)))) = length keys"
    by (simp only: types)
  then have len: "length (results (fst (get_lab_results R pid s))) = 7"
    by (simp add: keys_eq)
  have dist: "distinct keys" by (simp add: keys_eq)
  have fields: "map (\<lambda>r. (test_type r, unit_f r, reference_min r, reference_max r))
       (results (fst (get_lab_results R pid s))) =
     map (\<lambda>(t, cfg). (t, cfg_unit cfg, cfg_min cfg, cfg_max cfg)) LAB_REFERENCE_RANGES"
    by (simp add: get_results panel_loop_fields)
  show ?thesis using types len dist fields by simp
qed

text \<open>
  Claim C4. For a test type of the table, with its entry \<open>cfg\<close>, and any abnormal
  probability, the generator run on a random stream returns what the reference
  definition returns on the same stream, value and remaining stream alike: one uniform
  draw, then one Gaussian draw with the abnormal parameters if the uniform draw is less
  than the probability and with the normal parameters otherwise.
\<close>

theorem generate_refines_spec:
  "map_of LAB_REFERENCE_RANGES t = Some cfg \<Longrightarrow>
   generate_lab_value R t p s = spec_generate R cfg p s"
  by (simp add: generate_lab_value_def spec_generate_def spec_sample_def spec_post_process_def
        split_def Let_def max_def not_less)

theorem generate_refines_spec_witness:
  "generate_lab_value fixed_sys ''hba1c'' (3/10) 0 = (43/10, 2) \<and>
   generate_lab_value fixed_sys ''hba1c'' (6/10) 0 = (3, 2)"
  using generate_refines_spec[OF hba1c_cfg, of fixed_sys "3/10" 0]
        generate_refines_spec[OF hba1c_cfg, of fixed_sys "6/10" 0]
  by (simp add: spec_generate_def spec_sample_def spec_post_process_def fixed_sys_def
        round2_def round_half_even_def Let_def)

text \<open>
  Claim C5. For a test type of the table, whatever the random draws, the generated value
  is at least zero and is a whole number of hundredths.
\<close>

theorem generate_nonneg_rounded:
  "t \<in> set keys \<Longrightarrow>
   0 \<le> fst (generate_lab_value R t p s) \<and>
   (\<exists>k::int. fst (generate_lab_value R t p s) = of_int k / 100)"
proof -
  assume "t \<in> set keys"
  then obtain cfg where cfg: "map_of LAB_REFERENCE_RANGES t = Some cfg"
    by (auto simp: in_keys_iff)
  obtain v where v: "fst (generate_lab_value R t p s) = round2 (max 0 v)"
    using cfg by (simp add: generate_lab_value_def split_def Let_def)
  have "0 \<le> round2 (max 0 v)" by (rule round2_nonneg) simp
  then show ?thesis using v round2_hundredths[of "max 0 v"] by simp
qed

theorem generate_nonneg_rounded_witness:
  "''crp'' \<in> set keys \<and> 0 \<le> fst (generate_lab_value fixed_sys ''crp'' (3/10) 0)"
proof -
  have k: "''crp'' \<in> set keys" by (simp add: keys_eq)
  from generate_nonneg_rounded[OF k, of fixed_sys "3/10" 0] k show ?thesis by simp
qed

text \<open>
  Claim C6. For a test type that is not a key of the table the generator raises nothing:
  it makes one draw \<open>uniform(0, 100)\<close> and returns it rounded to two decimals, a whole
  number of hundredths between 0 and 100, given that the library's draw lies in
  \<open>[0, 100]\<close>.
\<close>

theorem generate_unknown_fallback:
  "t \<notin> set keys \<Longrightarrow> random_ok R \<Longrightarrow>
   generate_lab_value R t p s =
     (round2 (fst (random_uniform R 0 100 s)), snd (random_uniform R 0 100 s)) \<and>
   0 \<le> fst (generate_lab_value R t p s) \<and> fst (generate_lab_value R t p s) \<le> 100 \<and>
   (\<exists>k::int. fst (generate_lab_value R t p s) = of_int k / 100)"
proof -
  assume t: "t \<notin> set keys" and ok: "random_ok R"
  let ?u = "fst (random_uniform R 0 100 s)"
  from t have none: "map_of LAB_REFERENCE_RANGES t = None" by (simp add: in_keys_iff)
  then have eq: "generate_lab_value R t p s = (round2 ?u, snd (random_uniform R 0 100 s))"
    by (simp add: generate_lab_value_def split_def Let_def)
  from ok have "0 \<le> ?u \<and> ?u \<le> 100" unfolding random_ok_def by simp
  then have "0 \<le> round2 ?u" "round2 ?u \<le> 100"
    by (simp_all add: round2_nonneg round2_le_100)
  then show ?thesis using eq round2_hundredths[of ?u] by simp
qed

theorem generate_unknown_fallback_witness:
  "''cholesterol'' \<notin> set keys \<and> random_ok fixed_sys \<and>
   generate_lab_value fixed_sys ''cholesterol'' (3/10) 0 = (100, 1)"
proof -
  have k: "''cholesterol'' \<notin> set keys" by (simp add: keys_eq)
  from generate_unknown_fallback[OF k fixed_sys_ok, of "3/10" 0] have
    "generate_lab_value fixed_sys ''cholesterol'' (3/10) 0 = (100, 1)"
    by (simp add: fixed_sys_def round2_def round_half_even_def Let_def)
  with k fixed_sys_ok show ?thesis by simp
qed

text \<open>
  Claim C7. The default list of test types is \<open>hba1c\<close>, \<open>cholesterol\<close>, \<open>crp\<close>, and
  \<open>cholesterol\<close> is not a key of the table: a request that leaves the list at its
  default gets a response with exactly two results, \<open>hba1c\<close> then \<open>crp\<close>, and none
  for a cholesterol test.
\<close>

theorem default_request_drops_cholesterol:
  "default_test_types = [''hba1c'', ''cholesterol'', ''crp''] \<and>
   map_of LAB_REFERENCE_RANGES ''cholesterol'' = None \<and>
   (\<exists>resp r1 r2. fst (request_lab_results R (LabRequest_default pid) s) = Inr resp \<and>
      results resp = [r1, r2] \<and> test_type r1 = ''hba1c'' \<and> test_type r2 = ''crp'')"
  by (simp add: request_lab_results_def LabRequest_default_def default_test_types_def
        LAB_REFERENCE_RANGES_def split_def Let_def)

text \<open>
  Claim C8. For every patient id, a request for \<open>hba1c\<close> alone returns a response with
  exactly one result: test type \<open>hba1c\<close>, unit \<open>%\<close>, reference range 4.0 to 5.6.
\<close>

theorem hba1c_request_single_result:
  "\<exists>resp r. fst (request_lab_results R \<lparr>req_patient_id = pid, req_test_types = [''hba1c'']\<rparr> s) = Inr resp \<and>
      results resp = [r] \<and> test_type r = ''hba1c'' \<and> unit_f r = ''%'' \<and>
      reference_min r = 4.0 \<and> reference_max r = 5.6"
  by (simp add: request_lab_results_def LAB_REFERENCE_RANGES_def split_def Let_def)

text \<open>
  Claim C9. The handler that lists the available tests takes no input and has no raising
  path; it returns one entry per key of the table, the seven of them in table order,
  each with the unit and the minimum and maximum of its table entry.
\<close>

theorem list_available_tests_table:
  "list_available_tests =
     \<lparr>tests =
       [(''hba1c'', \<lparr>info_unit = ''%'', info_reference_range = \<lparr>range_min = 4.0, range_max = 5.6\<rparr>\<rparr>),
        (''cholesterol_total'', \<lparr>info_unit = ''mg/dL'', info_reference_range = \<lparr>range_min = 0, range_max = 200\<rparr>\<rparr>),
        (''cholesterol_ldl'', \<lparr>info_unit = ''mg/dL'', info_reference_range = \<lparr>range_min = 0, range_max = 100\<rparr>\<rparr>),
        (''cholesterol_hdl'', \<lparr>info_unit = ''mg/dL'', info_reference_range = \<lparr>range_min = 40, range_max = 60\<rparr>\<rparr>),
        (''crp'', \<lparr>info_unit = ''mg/L'', info_reference_range = \<lparr>range_min = 0, range_max = 3.0\<rparr>\<rparr>),
        (''glucose_fasting'', \<lparr>info_unit = ''mg/dL'', info_reference_range = \<lparr>range_min = 70, range_max = 100\<rparr>\<rparr>),
        (''triglycerides'', \<lparr>info_unit = ''mg/dL'', info_reference_range = \<lparr>range_min = 0, range_max = 150\<rparr>\<rparr>)]\<rparr> \<and>
   map fst (tests list_available_tests) = keys \<and>
   length (tests list_available_tests) = 7 \<and>
   map (\<lambda>(t, i). (t, info_unit i, range_min (info_reference_range i), range_max (info_reference_range i)))
       (tests list_available_tests) =
     map (\<lambda>(t, cfg). (t, cfg_unit cfg, cfg_min cfg, cfg_max cfg)) LAB_REFERENCE_RANGES"
  by (simp add: list_available_tests_def LAB_REFERENCE_RANGES_def keys_def)

text \<open>
  Claim C10. A response of either handler carries the patient id it was given; its
  results come in request order (the requested types that are table keys) for the request
  handler and in table order for the full panel; and its lab id is \<open>LAB-\<close> followed by
  the decimal form, six digits long, of an integer between 100000 and 999999, given that
  the library's \<open>randint\<close> stays within its bounds.
\<close>

theorem response_envelope:
  "random_ok R \<Longrightarrow>
   (\<forall>resp. fst (request_lab_results R req s) = Inr resp \<longrightarrow>
      patient_id resp = req_patient_id req \<and>
      map test_type (results resp) = filter (\<lambda>t. t \<in> set keys) (req_test_types req) \<and>
      (\<exists>n. 100000 \<le> n \<and> n \<le> 999999 \<and> lab_id resp = ''LAB-'' @ str_int n \<and>
           length (str_int n) = 6 \<and> set (str_int n) \<subseteq> set ''0123456789'')) \<and>
   patient_id (fst (get_lab_results R pid s)) = pid \<and>
   map test_type (results (fst (get_lab_results R pid s))) = keys \<and>
   (\<exists>n. 100000 \<le> n \<and> n \<le> 999999 \<and> lab_id (fst (get_lab_results R pid s)) = ''LAB-'' @ str_int n \<and>
        length (str_int n) = 6 \<and> set (str_int n) \<subseteq> set ''0123456789'')"
proof -
  assume ok: "random_ok R"
  have rng: "100000 \<le> fst (random_randint R 100000 999999 s') \<and>
             fst (random_randint R 100000 999999 s') \<le> 999999" for s'
    using ok unfolding random_ok_def by simp
  have fmt: "\<exists>n. 100000 \<le> n \<and> n \<le> 999999 \<and>
               ''LAB-'' @ str_int (fst (random_randint R 100000 999999 s')) = ''LAB-'' @ str_int n \<and>
               length (str_int n) = 6 \<and> set (str_int n) \<subseteq> set ''0123456789''" for s'
    using rng[of s'] str_int_six[of "fst (random_randint R 100000 999999 s')"] by blast
  have req: "patient_id resp = req_patient_id req \<and>
      map test_type (results resp) = filter (\<lambda>t. t \<in> set keys) (req_test_types req) \<and>
      (\<exists>n. 100000 \<le> n \<and> n \<le> 999999 \<and> lab_id resp = ''LAB-'' @ str_int n \<and>
           length (str_int n) = 6 \<and> set (str_int n) \<subseteq> set ''0123456789'')"
    if "fst (request_lab_results R req s) = Inr resp" for resp
  proof -
    let ?s1 = "snd (request_loop R (req_test_types req) [] s)"
    from that have ne: "fst (request_loop R (req_test_types req) [] s) \<noteq> []"
      by (auto simp: request_cases split: if_splits)
    with that have resp: "resp = \<lparr>patient_id = req_patient_id req,
             results = fst (request_loop R (req_test_types req) [] s),
             lab_id = ''LAB-'' @ str_int (fst (random_randint R 100000 999999 ?s1)),
             processed_at = fst (datetime_utcnow R (snd (random_randint R 100000 999999 ?s1)))\<rparr>"
      by (simp add: request_cases)
    have "map test_type (results resp) = filter (\<lambda>t. t \<in> set keys) (req_test_types req)"
      using request_loop_types[of R "req_test_types req" "[]" s] by (simp add: resp)
    moreover have "patient_id resp = req_patient_id req" by (simp add: resp)
    moreover have "lab_id resp = ''LAB-'' @ str_int (fst (random_randint R 100000 999999 ?s1))"
      by (simp add: resp)
    ultimately show ?thesis using fmt[of ?s1] by simp
  qed
  have pan1: "patient_id (fst (get_lab_results R pid s)) = pid"
    by (simp add: get_lab_results_def split_def Let_def)
  have pan2: "map test_type (results (fst (get_lab_results R pid s))) = keys"
    by (rule get_results_types)
  have "lab_id (fst (get_lab_results R pid s)) =
          ''LAB-'' @ str_int (fst (random_randint R 100000 999999 (snd (panel_loop R LAB_REFERENCE_RANGES [] s))))"
    by (simp add: get_lab_results_def split_def Let_def)
  then have pan3: "\<exists>n. 100000 \<le> n \<and> n \<le> 999999 \<and> lab_id (fst (get_lab_results R pid s)) = ''LAB-'' @ str_int n \<and>
        length (str_int n) = 6 \<and> set (str_int n) \<subseteq> set ''0123456789''"
    using fmt[of "snd (panel_loop R LAB_REFERENCE_RANGES [] s)"] by simp
  show ?thesis using req pan1 pan2 pan3 by blast
qed

theorem response_envelope_witness:
  "random_ok fixed_sys \<and>
   (\<exists>resp. fst (request_lab_results fixed_sys \<lparr>req_patient_id = ''p1'', req_test_types = [''crp'', ''x'', ''hba1c'']\<rparr> 0) = Inr resp \<and>
      patient_id resp = ''p1'' \<and> map test_type (results resp) = [''crp'', ''hba1c'']) \<and>
   patient_id (fst (get_lab_results fixed_sys ''p2'' 0)) = ''p2'' \<and>
   lab_id (fst (get_lab_results fixed_sys ''p2'' 0)) = ''LAB-100000''"
proof -
  let ?req = "\<lparr>req_patient_id = ''p1'', req_test_types = [''crp'', ''x'', ''hba1c'']\<rparr>"
  note inst = response_envelope[OF fixed_sys_ok, of ?req 0 "''p2''"]
  obtain resp where resp: "fst (request_lab_results fixed_sys ?req 0) = Inr resp"
    by (simp add: request_lab_results_def LAB_REFERENCE_RANGES_def split_def Let_def)
  with inst have "patient_id resp = req_patient_id ?req \<and>
      map test_type (results resp) = filter (\<lambda>t. t \<in> set keys) (req_test_types ?req)"
    by blast
  then have a: "patient_id resp = ''p1'' \<and> map test_type (results resp) = [''crp'', ''hba1c'']"
    by (simp add: keys_eq)
  from inst have b: "patient_id (fst (get_lab_results fixed_sys ''p2'' 0)) = ''p2''" by blast
  have c: "lab_id (fst (get_lab_results fixed_sys ''p2'' 0)) = ''LAB-100000''"
    by (simp add: get_lab_results_def fixed_sys_def split_def Let_def str_int_def
          str_nat.simps digit_char_def)
  from resp a have ex: "\<exists>resp. fst (request_lab_results fixed_sys ?req 0) = Inr resp \<and>
      patient_id resp = ''p1'' \<and> map test_type (results resp) = [''crp'', ''hba1c'']"
    by (intro exI[of _ resp]) simp
  show ?thesis using fixed_sys_ok ex b c by simp
qed

end
